theory Spec2Isabelle
  imports Main "HOL-Library.Multiset" "HOL-Library.Product_Lexorder"
begin

section \<open>Python values used by main.py\<close>

text \<open>
  A Python \<open>str\<close> is a sequence of Unicode code points. The bot's literals are Russian,
  so a string is modelled as the list of its code points; ASCII literals are written
  through \<open>ascii\<close>.
\<close>

type_synonym pystr = "nat list"

definition ascii :: "string \<Rightarrow> pystr" where
  "ascii s = map of_char s"

text \<open>Truthiness of a string and of a nullable string (\<open>if s:\<close>).\<close>

definition truthy_str :: "pystr \<Rightarrow> bool" where
  "truthy_str s = (s \<noteq> [])"

definition truthy_opt :: "pystr option \<Rightarrow> bool" where
  "truthy_opt v = (case v of None \<Rightarrow> False | Some s \<Rightarrow> truthy_str s)"

text \<open>\<open>str(v)\<close> inside an f-string, for a nullable string column.\<close>

definition str_opt :: "pystr option \<Rightarrow> pystr" where
  "str_opt v = (case v of None \<Rightarrow> ascii ''None'' | Some s \<Rightarrow> s)"

text \<open>
  The value of \<open>a or b\<close> used as a condition, where \<open>a\<close> is a string and \<open>b\<close> a bool:
  Python returns \<open>a\<close> itself when \<open>a\<close> is truthy and evaluates \<open>b\<close> only otherwise.
\<close>

definition or_cond :: "pystr \<Rightarrow> bool \<Rightarrow> bool" where
  "or_cond a b = (if truthy_str a then True else b)"

subsection \<open>String operations\<close>

fun starts_with :: "pystr \<Rightarrow> pystr \<Rightarrow> bool" where
  "starts_with s [] = True"
| "starts_with [] (p # ps) = False"
| "starts_with (c # cs) (p # ps) = (c = p \<and> starts_with cs ps)"

text \<open>\<open>sub in s\<close>.\<close>

fun contains :: "pystr \<Rightarrow> pystr \<Rightarrow> bool" where
  "contains [] sub = (sub = [])"
| "contains (c # cs) sub = (starts_with (c # cs) sub \<or> contains cs sub)"

text \<open>
  \<open>s.replace(old, new)\<close> for a non-empty \<open>old\<close> (the only use in main.py): the
  occurrences are replaced from left to right, without overlap.
\<close>

function py_replace :: "pystr \<Rightarrow> pystr \<Rightarrow> pystr \<Rightarrow> pystr" where
  "py_replace old new [] = []"
| "py_replace old new (c # cs) =
     (if old \<noteq> [] \<and> starts_with (c # cs) old
      then new @ py_replace old new (drop (length old) (c # cs))
      else c # py_replace old new cs)"
  by pat_completeness auto
termination
  by (relation "measure (\<lambda>(old, new, s). length s)") (auto simp: neq_Nil_conv)

text \<open>The code points for which \<open>str.isspace\<close> holds; \<open>strip()\<close> removes them at both ends.\<close>

definition is_space :: "nat \<Rightarrow> bool" where
  "is_space c = ((9 \<le> c \<and> c \<le> 13) \<or> (28 \<le> c \<and> c \<le> 32) \<or> c = 133 \<or> c = 160
      \<or> c = 5760 \<or> (8192 \<le> c \<and> c \<le> 8202) \<or> c = 8232 \<or> c = 8233 \<or> c = 8239
      \<or> c = 8287 \<or> c = 12288)"

definition strip :: "pystr \<Rightarrow> pystr" where
  "strip s = rev (dropWhile is_space (rev (dropWhile is_space s)))"

text \<open>
  \<open>str.lower\<close> on the alphabets the bot is used with: Latin A-Z, Cyrillic U+0410-U+042F
  and U+0400-U+040F; every other code point is left as it is. Python's \<open>str.lower\<close>
  changes further code points (and for a few the length of the string): on a phrase that
  holds one of those the model and the code differ, and nothing below is stated at such
  a phrase.
\<close>

definition lower_cp :: "nat \<Rightarrow> nat" where
  "lower_cp c =
     (if 65 \<le> c \<and> c \<le> 90 then c + 32
      else if 1040 \<le> c \<and> c \<le> 1071 then c + 32
      else if 1024 \<le> c \<and> c \<le> 1039 then c + 80
      else c)"

definition lower :: "pystr \<Rightarrow> pystr" where
  "lower s = map lower_cp s"

section \<open>datetime\<close>

record datetime =
  year :: nat
  month :: nat
  day :: nat
  hour :: nat
  minute :: nat
  second :: nat
  microsecond :: nat

datatype bad_field = Year | Month | Day

datatype error = ValueError bad_field | OverflowError

definition is_leap :: "nat \<Rightarrow> bool" where
  "is_leap y = (y mod 4 = 0 \<and> (y mod 100 \<noteq> 0 \<or> y mod 400 = 0))"

definition days_in_month :: "nat \<Rightarrow> nat \<Rightarrow> nat" where
  "days_in_month y m =
     (if m = 2 then (if is_leap y then 29 else 28)
      else if m = 4 \<or> m = 6 \<or> m = 9 \<or> m = 11 then 30 else 31)"

text \<open>The calendar fields are well formed, as the \<open>datetime\<close> constructor checks them.\<close>

definition valid_dt :: "datetime \<Rightarrow> bool" where
  "valid_dt d = (1 \<le> year d \<and> year d \<le> 9999 \<and> 1 \<le> month d \<and> month d \<le> 12
     \<and> 1 \<le> day d \<and> day d \<le> days_in_month (year d) (month d)
     \<and> hour d < 24 \<and> minute d < 60 \<and> second d < 60 \<and> microsecond d < 1000000)"

text \<open>Comparison of two datetimes (\<open><\<close>, and SQL's ordering of the column) is lexicographic.\<close>

definition dt_key :: "datetime \<Rightarrow> nat \<times> nat \<times> nat \<times> nat \<times> nat \<times> nat \<times> nat" where
  "dt_key d = (year d, month d, day d, hour d, minute d, second d, microsecond d)"

definition dt_less :: "datetime \<Rightarrow> datetime \<Rightarrow> bool" where
  "dt_less a b = (dt_key a < dt_key b)"

text \<open>
  \<open>d.replace(year=y, month=m)\<close> builds a new datetime and so re-runs the constructor's
  checks: the year, then the month, then the day against the length of the new month.
\<close>

definition dt_replace :: "nat \<Rightarrow> nat \<Rightarrow> datetime \<Rightarrow> error + datetime" where
  "dt_replace y m d =
     (if y < 1 \<or> 9999 < y then Inl (ValueError Year)
      else if m < 1 \<or> 12 < m then Inl (ValueError Month)
      else if day d < 1 \<or> days_in_month y m < day d then Inl (ValueError Day)
      else Inr (d\<lparr>year := y, month := m\<rparr>))"

text \<open>\<open>d + timedelta(days=1)\<close>: the same time on the next calendar day; past 9999-12-31 it raises.\<close>

definition add_day :: "datetime \<Rightarrow> error + datetime" where
  "add_day d =
     (if day d < days_in_month (year d) (month d) then Inr (d\<lparr>day := day d + 1\<rparr>)
      else if month d < 12 then Inr (d\<lparr>month := month d + 1, day := 1\<rparr>)
      else if year d < 9999 then Inr (d\<lparr>year := year d + 1, month := 1, day := 1\<rparr>)
      else Inl OverflowError)"

text \<open>
  \<open>(a - b).total_seconds()\<close>, kept in whole microseconds (the float is this number
  divided by \<open>10^6\<close>, so its sign is the sign of the integer). The day number is
  Python's proleptic Gregorian ordinal.
\<close>

definition days_before_year :: "nat \<Rightarrow> int" where
  "days_before_year y =
     (let p = int y - 1 in p * 365 + p div 4 - p div 100 + p div 400)"

definition days_before_month :: "nat \<Rightarrow> nat \<Rightarrow> int" where
  "days_before_month y m = int (sum_list (map (days_in_month y) [1 ..< m]))"

definition toordinal :: "datetime \<Rightarrow> int" where
  "toordinal d = days_before_year (year d) + days_before_month (year d) (month d) + int (day d)"

definition micros :: "datetime \<Rightarrow> int" where
  "micros d = (((toordinal d * 24 + int (hour d)) * 60 + int (minute d)) * 60
                 + int (second d)) * 1000000 + int (microsecond d)"

definition delay_us :: "datetime \<Rightarrow> datetime \<Rightarrow> int" where
  "delay_us a b = micros a - micros b"

section \<open>The Reminder row\<close>

record reminder =
  id' :: int
  user_id :: int
  name :: pystr
  time :: datetime
  repeat_interval :: "pystr option"
  is_weather :: bool
  city :: "pystr option"
  file_id :: "pystr option"
  file_type :: "pystr option"
  next_run :: datetime

section \<open>get\_weather\<close>

text \<open>
  What the HTTP call gives back: an exception (with its \<open>str(e)\<close>), or a JSON body. Of the
  body the function reads \<open>cod\<close>, \<open>message\<close> and the report fields; a missing key raises
  KeyError inside the \<open>try\<close>. The report fields are kept as their renderings
  (temperature, feels-like, capitalised description, wind speed), or the text of the
  exception that reading them raises.
\<close>

datatype jval = JInt int | JStr pystr

record body =
  cod :: "jval option"
  message :: "pystr option"
  report :: "pystr + (pystr \<times> pystr \<times> pystr \<times> pystr)"

datatype http_result = RequestFailed pystr | Json body

text \<open>The literals of the source, as code points.\<close>

definition err_status :: pystr where
  "err_status = [1054, 1096, 1080, 1073, 1082, 1072, 58, 32]"

definition err_lookup :: pystr where
  "err_lookup = [1054, 1096, 1080, 1073, 1082, 1072, 32, 1087, 1086, 1083, 1091, 1095, 1077,
     1085, 1080, 1103, 32, 1087, 1086, 1075, 1086, 1076, 1099, 58, 32]"

definition key_error :: "string \<Rightarrow> pystr" where
  "key_error k = [39] @ ascii k @ [39]"

definition render_report :: "pystr \<Rightarrow> pystr \<times> pystr \<times> pystr \<times> pystr \<Rightarrow> pystr" where
  "render_report c f =
     (case f of (temp, feels, descr, wind) \<Rightarrow>
        [1055, 1086, 1075, 1086, 1076, 1072, 32, 1074, 32] @ c @ [58, 10]
      @ [1058, 1077, 1084, 1087, 1077, 1088, 1072, 1090, 1091, 1088, 1072, 58, 32] @ temp
      @ [176, 67, 10]
      @ [1054, 1097, 1091, 1097, 1072, 1077, 1090, 1089, 1103, 32, 1082, 1072, 1082, 58, 32]
      @ feels @ [176, 67, 10]
      @ descr @ [10]
      @ [1042, 1077, 1090, 1077, 1088, 58, 32] @ wind @ [32, 1084, 47, 1089])"

definition get_weather :: "pystr \<Rightarrow> http_result \<Rightarrow> pystr" where
  "get_weather c res =
     (case res of
        RequestFailed e \<Rightarrow> err_lookup @ e
      | Json data \<Rightarrow>
          (case cod data of
             None \<Rightarrow> err_lookup @ key_error ''cod''
           | Some k \<Rightarrow>
               if k \<noteq> JInt 200
               then (case message data of
                       None \<Rightarrow> err_lookup @ key_error ''message''
                     | Some m \<Rightarrow> err_status @ m)
               else (case report data of
                       Inl e \<Rightarrow> err_lookup @ e
                     | Inr f \<Rightarrow> render_report c f)))"

section \<open>send\_reminder\<close>

datatype call =
    SendMessage int pystr
  | SendPhoto int pystr pystr
  | SendDocument int pystr pystr
  | SendAudio int pystr pystr

text \<open>
  What a task does that the outside can see: it sleeps, a gateway call goes through, or
  \<open>send_reminder\<close> prints the exception a gateway call raised.
\<close>

datatype event = Sleep int | Sent call | Printed pystr

text \<open>
  The collaborators: the weather service (by city) and the messaging gateway, which
  accepts a call (\<open>None\<close>) or raises (\<open>Some\<close> of the exception's text).
\<close>

record env =
  weather :: "pystr \<Rightarrow> http_result"
  gateway :: "call \<Rightarrow> pystr option"

definition err_send :: pystr where
  "err_send = [1054, 1096, 1080, 1073, 1082, 1072, 32, 1086, 1090, 1087, 1088, 1072, 1074,
     1082, 1080, 58, 32]"

definition weather_prefix :: pystr where
  "weather_prefix = [9200, 32, 1053, 1072, 1087, 1086, 1084, 1080, 1085, 1072, 1085, 1080,
     1077, 32, 1086, 32, 1087, 1086, 1075, 1086, 1076, 1077, 32, 1074, 32]"

definition reminder_prefix :: pystr where
  "reminder_prefix = [9200, 32, 1053, 1072, 1087, 1086, 1084, 1080, 1085, 1072, 1085, 1080,
     1077, 58, 32]"

text \<open>One awaited gateway call inside the \<open>try\<close> of \<open>send_reminder\<close>.\<close>

definition attempt :: "env \<Rightarrow> call \<Rightarrow> event list" where
  "attempt e c = (case gateway e c of None \<Rightarrow> [Sent c] | Some x \<Rightarrow> [Printed (err_send @ x)])"

definition send_reminder :: "env \<Rightarrow> reminder \<Rightarrow> event list" where
  "send_reminder e r =
     (if is_weather r
      then (let c = str_opt (city r);
                weather_text = get_weather c (weather e c);
                text = weather_prefix @ c @ [58, 10] @ weather_text
            in attempt e (SendMessage (user_id r) text))
      else (let text = reminder_prefix @ name r in
            case file_id r of
              None \<Rightarrow> attempt e (SendMessage (user_id r) text)
            | Some f \<Rightarrow>
                if truthy_str f
                then (if file_type r = Some (ascii ''photo'')
                        then attempt e (SendPhoto (user_id r) f text)
                      else if file_type r = Some (ascii ''document'')
                        then attempt e (SendDocument (user_id r) f text)
                      else if file_type r = Some (ascii ''audio'')
                        then attempt e (SendAudio (user_id r) f text)
                      else [])
                else attempt e (SendMessage (user_id r) text)))"

section \<open>schedule\_reminder\<close>

text \<open>
  The recurrence step after a delivery (the body of \<open>if reminder.repeat_interval:\<close>): the
  two tags it knows move \<open>next_run\<close>, any other value leaves it as it is.
\<close>

definition advance :: "reminder \<Rightarrow> error + reminder" where
  "advance r =
     (if repeat_interval r = Some (ascii ''daily'')
      then (case add_day (next_run r) of
              Inl x \<Rightarrow> Inl x
            | Inr t \<Rightarrow> Inr (r\<lparr>next_run := t\<rparr>))
      else if repeat_interval r = Some (ascii ''monthly'')
      then (case dt_replace (year (next_run r)) (month (next_run r) + 1) (next_run r) of
              Inl x \<Rightarrow> Inl x
            | Inr t \<Rightarrow> Inr (r\<lparr>next_run := t\<rparr>))
      else Inr r)"

text \<open>
  How a task ends: the loop reached a \<open>break\<close>, an exception left the coroutine, or the
  clock readings given to the model ran out while the task was still in its loop.
\<close>

datatype outcome = Finished | Raised error | Armed reminder

text \<open>
  The \<open>while True\<close> loop. Each round reads \<open>datetime.now()\<close> once; the readings are given
  as a list, one per round. \<open>after_sleep\<close> is the rest of a round once
  \<open>asyncio.sleep(delay)\<close> has returned.
\<close>

fun schedule_reminder :: "env \<Rightarrow> datetime list \<Rightarrow> reminder \<Rightarrow> event list \<times> outcome"
  and after_sleep :: "env \<Rightarrow> datetime list \<Rightarrow> reminder \<Rightarrow> event list \<times> outcome"
where
  "schedule_reminder e [] r = ([], Armed r)"
| "schedule_reminder e (now # rest) r =
     (let delay = delay_us (next_run r) now in
      if 0 < delay
      then (case after_sleep e rest r of (evs, out) \<Rightarrow> (Sleep delay # evs, out))
      else ([], Finished))"
| "after_sleep e rest r =
     (let evs = send_reminder e r in
      if truthy_opt (repeat_interval r)
      then (case advance r of
              Inl x \<Rightarrow> (evs, Raised x)
            | Inr r' \<Rightarrow> (case schedule_reminder e rest r' of (evs', out) \<Rightarrow> (evs @ evs', out)))
      else (evs, Finished))"

section \<open>process\_time\<close>

definition every_day :: pystr where
  "every_day = [1082, 1072, 1078, 1076, 1099, 1081, 32, 1076, 1077, 1085, 1100]"

definition every_day_cap :: pystr where
  "every_day_cap = [1050, 1072, 1078, 1076, 1099, 1081, 32, 1076, 1077, 1085, 1100]"

definition every_month :: pystr where
  "every_month = [1082, 1072, 1078, 1076, 1099, 1081, 32, 1084, 1077, 1089, 1103, 1094]"

definition every_month_cap :: pystr where
  "every_month_cap = [1050, 1072, 1078, 1076, 1099, 1081, 32, 1084, 1077, 1089, 1103, 1094]"

text \<open>The two tags \<open>process_time\<close> writes (U+0435 U+0436 U+0435 ...).\<close>

definition tag_every_day :: pystr where
  "tag_every_day = [1077, 1078, 1077, 1076, 1085, 1077, 1074, 1085, 1086]"

definition tag_every_month :: pystr where
  "tag_every_month = [1077, 1078, 1077, 1084, 1077, 1089, 1103, 1095, 1085, 1086]"

text \<open>
  Lines 211-220: the recurrence tag and the phrase handed to the parser. The conditions
  are \<open>"lit" or "Lit" in clean_time_str\<close>, which Python reads as
  \<open>"lit" or ("Lit" in clean_time_str)\<close>.
\<close>

definition detect_repeat :: "pystr \<Rightarrow> pystr option \<times> pystr" where
  "detect_repeat time_str =
     (let clean_time_str = lower time_str in
      if or_cond every_day (contains clean_time_str every_day_cap)
      then (Some tag_every_day, strip (py_replace every_day [] (lower time_str)))
      else if or_cond every_month (contains clean_time_str every_month_cap)
      then (Some tag_every_month, strip (py_replace every_month [] (lower time_str)))
      else (None, time_str))"

text \<open>Lines 237-245: the correction of a parsed time that is already past.\<close>

definition adjust :: "datetime \<Rightarrow> pystr option \<Rightarrow> datetime \<Rightarrow> error + datetime" where
  "adjust now repeat parsed_time =
     (if dt_less parsed_time now \<and> truthy_opt repeat
      then (if repeat = Some (ascii ''daily'') then add_day parsed_time
            else if repeat = Some (ascii ''monthly'')
            then (case dt_replace (year now) (month now + 1) parsed_time of
                    Inl x \<Rightarrow> Inl x
                  | Inr p \<Rightarrow> if dt_less p now then dt_replace (year p) (month p + 1) p
                             else Inr p)
            else Inr parsed_time)
      else Inr parsed_time)"

text \<open>
  What the handler leaves in the conversation state: nothing when the phrase is not
  understood, else \<open>time = next_run\<close> and \<open>repeat_interval\<close>.
\<close>

datatype resolved = Unresolved | Resolved datetime "pystr option"

text \<open>
  \<open>dateparser.parse\<close> is a library: it is a parameter, taking the relative base and the
  phrase. \<open>base\<close> and \<open>now\<close> are the handler's two readings of the clock. The model holds
  naive datetimes only and a message that has text: a time-zone-aware result of the
  parser (the comparison of line 239 then raises TypeError) and a message without text
  are outside it.
\<close>

definition process_time ::
  "(datetime \<Rightarrow> pystr \<Rightarrow> datetime option) \<Rightarrow> datetime \<Rightarrow> datetime \<Rightarrow> pystr
     \<Rightarrow> error + resolved" where
  "process_time parse base now text =
     (case detect_repeat text of
        (repeat, time_str) \<Rightarrow>
          (case parse base time_str of
             None \<Rightarrow> Inr Unresolved
           | Some parsed_time \<Rightarrow>
               (case adjust now repeat parsed_time of
                  Inl x \<Rightarrow> Inl x
                | Inr t \<Rightarrow> Inr (Resolved t repeat))))"

section \<open>The table, the running tasks and the handlers on them\<close>

text \<open>Lines 117-120: the query of \<open>show_reminders\<close>.\<close>

definition active_query :: "int \<Rightarrow> datetime \<Rightarrow> reminder list \<Rightarrow> reminder list" where
  "active_query uid now rows =
     sort_key (\<lambda>r. dt_key (next_run r))
       (filter (\<lambda>r. user_id r = uid \<and> (dt_less now (next_run r) \<or> repeat_interval r \<noteq> None))
          rows)"

datatype listing = NoActive | Active "reminder list"

definition show_reminders :: "int \<Rightarrow> datetime \<Rightarrow> reminder list \<Rightarrow> listing" where
  "show_reminders uid now rows =
     (let reminders = active_query uid now rows in
      if reminders = [] then NoActive else Active reminders)"

text \<open>
  The process: the rows of the table and the tasks made by \<open>asyncio.create_task\<close>, each
  holding the Reminder object it was started with. No handler keeps or cancels a task.
\<close>

record system =
  store :: "reminder list"
  tasks :: "reminder list"

text \<open>Lines 544-547 of \<open>main\<close>: one task for each row of the start-up query.\<close>

definition main :: "datetime \<Rightarrow> reminder list \<Rightarrow> system" where
  "main now rows =
     \<lparr>store = rows, tasks = filter (\<lambda>r. dt_less now (next_run r)) rows\<rparr>"



section \<open>Sample collaborators and values\<close>

text \<open>A gateway that accepts every call, and weather services that fail.\<close>

definition accepting :: "call \<Rightarrow> pystr option" where
  "accepting c = None"

definition not_found :: "pystr \<Rightarrow> http_result" where
  "not_found c = Json \<lparr>cod = Some (JStr (ascii ''404'')),
     message = Some (ascii ''city not found''), report = Inl (key_error ''main'')\<rparr>"

definition unreachable :: "pystr \<Rightarrow> http_result" where
  "unreachable c = RequestFailed (ascii ''connection refused'')"

definition at :: "nat \<Rightarrow> nat \<Rightarrow> nat \<Rightarrow> nat \<Rightarrow> nat \<Rightarrow> datetime" where
  "at y m d h mi = \<lparr>year = y, month = m, day = d, hour = h, minute = mi, second = 0,
     microsecond = 0\<rparr>"

text \<open>A parser that resolves every phrase to the given time.\<close>

definition parse_const :: "datetime \<Rightarrow> datetime \<Rightarrow> pystr \<Rightarrow> datetime option" where
  "parse_const t base phrase = Some t"

text \<open>The collaborators of the examples: the gateway works, the weather service answers 404.\<close>

definition sample_env :: env where
  "sample_env = \<lparr>weather = not_found, gateway = accepting\<rparr>"

text \<open>A text reminder of user 7, and a weather reminder of user 7 for Paris.\<close>

definition memo :: "int \<Rightarrow> pystr \<Rightarrow> pystr option \<Rightarrow> datetime \<Rightarrow> reminder" where
  "memo i nm rep t = \<lparr>id' = i, user_id = 7, name = nm, time = t, repeat_interval = rep,
     is_weather = False, city = None, file_id = None, file_type = None, next_run = t\<rparr>"

definition forecast :: "int \<Rightarrow> pystr option \<Rightarrow> datetime \<Rightarrow> reminder" where
  "forecast i rep t = \<lparr>id' = i, user_id = 7, name = ascii ''weather'', time = t,
     repeat_interval = rep, is_weather = True, city = Some (ascii ''Paris''), file_id = None,
     file_type = None, next_run = t\<rparr>"

text \<open>The phrases of the examples, as code points.\<close>

definition phrase_tomorrow :: pystr where
  "phrase_tomorrow = [1079, 1072, 1074, 1090, 1088, 1072, 32, 1074, 32, 49, 48, 58, 48, 48]"

definition phrase_monthly :: pystr where
  "phrase_monthly = [1050, 1072, 1078, 1076, 1099, 1081, 32, 1084, 1077, 1089, 1103, 1094, 32,
     1074, 32, 49, 48, 58, 48, 48]"

definition phrase_daily_2020 :: pystr where
  "phrase_daily_2020 = [1082, 1072, 1078, 1076, 1099, 1081, 32, 1076, 1077, 1085, 1100, 32, 49,
     32, 1103, 1085, 1074, 1072, 1088, 1103, 32, 50, 48, 50, 48, 32, 1074, 32, 56, 58, 48, 48]"

section \<open>Evaluation rules\<close>

lemmas str_defs = ascii_def truthy_str_def truthy_opt_def str_opt_def or_cond_def
  strip_def is_space_def lower_def lower_cp_def

lemmas dt_defs = at_def dt_key_def dt_less_def dt_replace_def add_day_def days_in_month_def
  is_leap_def delay_us_def micros_def toordinal_def days_before_year_def days_before_month_def

lemmas send_defs = send_reminder_def attempt_def accepting_def get_weather_def not_found_def
  unreachable_def key_error_def sample_env_def memo_def forecast_def

section \<open>The recurrence tag and the resolver\<close>

text \<open>
  The first condition of the tag detection is a non-empty literal, so the first branch is
  taken for every phrase, and the tag it writes is not one the correction step tests for.
\<close>

lemma detect_repeat_tag: "fst (detect_repeat s) = Some tag_every_day"
  by (simp add: detect_repeat_def or_cond_def truthy_str_def every_day_def)

lemma adjust_written_tag: "adjust now (Some tag_every_day) t = Inr t"
  by (simp add: adjust_def tag_every_day_def ascii_def)

lemma process_time_never_adjusts:
  "process_time parse base now phrase =
     (case parse base (snd (detect_repeat phrase)) of
        None \<Rightarrow> Inr Unresolved
      | Some t \<Rightarrow> Inr (Resolved t (Some tag_every_day)))"
proof -
  obtain ts where d: "detect_repeat phrase = (Some tag_every_day, ts)"
    using detect_repeat_tag [of phrase] by (cases "detect_repeat phrase") simp
  show ?thesis
    by (simp add: process_time_def d adjust_written_tag split: option.split)
qed

text \<open>
  C2 (the resolver detects "every day" / "every month", strips the keyword and sets the
  tag; a phrase with no keyword gets the tag none). The code, at two phrases: "tomorrow
  at 10:00" has no keyword and is tagged daily all the same; "Every month at 10:00" is
  tagged daily too, and its keyword is still in the phrase that goes to the parser (only
  lower-cased).
\<close>

theorem detect_repeat_tags_every_phrase_daily:
  "detect_repeat phrase_tomorrow = (Some tag_every_day, phrase_tomorrow)
   \<and> detect_repeat phrase_monthly = (Some tag_every_day, lower phrase_monthly)
   \<and> contains (lower phrase_monthly) every_month"
  by (simp add: detect_repeat_def str_defs every_day_def every_month_def tag_every_day_def
        phrase_tomorrow_def phrase_monthly_def)

text \<open>
  C3 (a recurring phrase whose time is already past is moved forward by one recurrence
  unit, so the first occurrence is in the future). The code, at the phrase "every day
  1 January 2020 at 8:00" read on 2024-03-01 09:00 with a parser that resolves the date
  as written: the stored time is the past one, unchanged.
\<close>

theorem process_time_keeps_past_time:
  "process_time (parse_const (at 2020 1 1 8 0)) (at 2024 3 1 9 0) (at 2024 3 1 9 0)
      phrase_daily_2020
     = Inr (Resolved (at 2020 1 1 8 0) (Some tag_every_day))
   \<and> dt_less (at 2020 1 1 8 0) (at 2024 3 1 9 0)"
  by (simp add: process_time_never_adjusts parse_const_def dt_less_def dt_key_def at_def)

section \<open>The recurrence step of the scheduler\<close>

text \<open>
  A row tagged \<open>daily\<close> does move on by one day, to a later time. (The commit on a fresh
  session that follows the step in the source is not modelled: the statements are about
  the Reminder object the task holds.)
\<close>

lemma add_day_later: "add_day d = Inr t \<Longrightarrow> dt_less d t"
  by (auto simp: add_day_def dt_less_def dt_key_def split: if_splits)

lemma advance_daily:
  "repeat_interval r = Some (ascii ''daily'') \<Longrightarrow> add_day (next_run r) = Inr t
     \<Longrightarrow> advance r = Inr (r\<lparr>next_run := t\<rparr>) \<and> dt_less (next_run r) t"
  using add_day_later [of "next_run r" t] by (simp add: advance_def)

text \<open>
  C1 (after each delivery a recurring reminder's next run moves on by one day or one
  calendar month and the wait is re-armed, so the next run strictly increases). The code,
  at the reminder the intake stores for "every day at 8:00" (its tag is the one
  \<open>process_time\<close> writes): after the delivery the recurrence step leaves the next run as
  it was, and the following round ends the task. And at a reminder tagged monthly whose
  next run is in December: the delivery is followed by a ValueError for month 13.
\<close>

theorem schedule_reminder_does_not_advance:
  "advance (memo 1 (ascii ''Take pills'') (Some tag_every_day) (at 2024 3 2 8 0))
     = Inr (memo 1 (ascii ''Take pills'') (Some tag_every_day) (at 2024 3 2 8 0))
   \<and> schedule_reminder sample_env [at 2024 3 1 9 0, at 2024 3 2 8 1]
        (memo 1 (ascii ''Take pills'') (Some tag_every_day) (at 2024 3 2 8 0))
     = ([Sleep 82800000000, Sent (SendMessage 7 (reminder_prefix @ ascii ''Take pills''))],
        Finished)
   \<and> after_sleep sample_env [at 2024 12 15 10 1]
        (memo 2 (ascii ''Rent'') (Some (ascii ''monthly'')) (at 2024 12 15 10 0))
     = ([Sent (SendMessage 7 (reminder_prefix @ ascii ''Rent''))], Raised (ValueError Month))"
  by (simp add: advance_def send_defs str_defs dt_defs tag_every_day_def)

text \<open>
  C4 (adding a month never raises on a day that the next month does not have, it rolls
  forward to the first valid day of the following month). The code, at a monthly
  reminder whose next run is 2024-01-31 09:00: the recurrence step raises ValueError for
  the day, and the task ends with it after the delivery. The resolver's correction does
  the same for a parsed 31st when the month after the current one has 30 days.
\<close>

theorem month_addition_raises_on_day_overflow:
  "advance (memo 3 (ascii ''Rent'') (Some (ascii ''monthly'')) (at 2024 1 31 9 0))
     = Inl (ValueError Day)
   \<and> after_sleep sample_env []
        (memo 3 (ascii ''Rent'') (Some (ascii ''monthly'')) (at 2024 1 31 9 0))
     = ([Sent (SendMessage 7 (reminder_prefix @ ascii ''Rent''))], Raised (ValueError Day))
   \<and> adjust (at 2024 3 15 12 0) (Some (ascii ''monthly'')) (at 2024 1 31 9 0)
     = Inl (ValueError Day)"
  by (simp add: advance_def adjust_def send_defs str_defs dt_defs)

text \<open>
  C8 (when the weather lookup fails at delivery, the owner gets a failure notice instead
  of an aborted delivery, and a recurring reminder still advances). The code, at the
  weather reminder the intake stores for "every day at 8:00" with the service answering
  404: the notice is sent, then the recurrence step leaves the next run as it was and
  the following round ends the task. With the tag monthly and a next run in December the
  notice is followed by a ValueError.
\<close>

theorem weather_failure_notice_then_no_advance:
  "send_reminder sample_env (forecast 4 (Some tag_every_day) (at 2024 3 2 8 0))
     = [Sent (SendMessage 7 (weather_prefix @ ascii ''Paris'' @ [58, 10] @ err_status
          @ ascii ''city not found''))]
   \<and> schedule_reminder sample_env [at 2024 3 1 9 0, at 2024 3 2 8 1]
        (forecast 4 (Some tag_every_day) (at 2024 3 2 8 0))
     = ([Sleep 82800000000, Sent (SendMessage 7 (weather_prefix @ ascii ''Paris'' @ [58, 10]
          @ err_status @ ascii ''city not found''))], Finished)
   \<and> after_sleep sample_env [at 2024 12 15 10 1]
        (forecast 5 (Some (ascii ''monthly'')) (at 2024 12 15 10 0))
     = ([Sent (SendMessage 7 (weather_prefix @ ascii ''Paris'' @ [58, 10] @ err_status
          @ ascii ''city not found''))], Raised (ValueError Month))"
  by (simp add: advance_def send_defs str_defs dt_defs tag_every_day_def)

section \<open>Arming and the timed wait\<close>

text \<open>
  C6, as amended: for every reminder passed to \<open>schedule_reminder\<close>, the delay is
  \<open>next_run - now\<close>; if the delay is not positive the task ends at once without any
  delivery, otherwise it sleeps for the delay and then delivers.
\<close>

theorem schedule_reminder_round:
  "(delay_us (next_run r) now \<le> 0 \<longrightarrow> schedule_reminder e (now # rest) r = ([], Finished))
   \<and> (0 < delay_us (next_run r) now \<longrightarrow>
        (\<exists>evs out. schedule_reminder e (now # rest) r
           = (Sleep (delay_us (next_run r) now) # send_reminder e r @ evs, out)))"
  by (auto simp: Let_def split: prod.splits sum.splits)

theorem schedule_reminder_round_witness:
  "schedule_reminder sample_env [at 2024 3 3 7 0]
      (memo 1 (ascii ''Call'') None (at 2024 3 3 7 0)) = ([], Finished)
   \<and> (\<exists>evs out. schedule_reminder sample_env [at 2024 3 1 9 0]
          (memo 1 (ascii ''Call'') None (at 2024 3 2 8 0))
        = (Sleep 82800000000
            # send_reminder sample_env (memo 1 (ascii ''Call'') None (at 2024 3 2 8 0)) @ evs,
           out))"
  using schedule_reminder_round [of "memo 1 (ascii ''Call'') None (at 2024 3 3 7 0)"
      "at 2024 3 3 7 0" sample_env "[]"]
    schedule_reminder_round [of "memo 1 (ascii ''Call'') None (at 2024 3 2 8 0)"
      "at 2024 3 1 9 0" sample_env "[]"]
  by (simp add: memo_def dt_defs)

text \<open>
  The claim as written (a reminder whose delay is not positive is delivered immediately)
  fails for a reminder that was due an hour before it is armed: nothing is sent.
\<close>

theorem past_due_reminder_is_not_delivered:
  "delay_us (next_run (memo 1 (ascii ''Call'') None (at 2024 3 1 8 0))) (at 2024 3 1 9 0)
     = - 3600000000
   \<and> send_reminder sample_env (memo 1 (ascii ''Call'') None (at 2024 3 1 8 0))
     = [Sent (SendMessage 7 (reminder_prefix @ ascii ''Call''))]
   \<and> schedule_reminder sample_env [at 2024 3 1 9 0]
        (memo 1 (ascii ''Call'') None (at 2024 3 1 8 0)) = ([], Finished)"
  by (simp add: send_defs str_defs dt_defs)

section \<open>Recovery at start-up\<close>

lemma count_list_filter:
  "count_list (filter P xs) x = (if P x then count_list xs x else 0)"
  by (induction xs) auto

lemma count_list_distinct: "distinct xs \<Longrightarrow> x \<in> set xs \<Longrightarrow> count_list xs x = 1"
  by (induction xs) auto

text \<open>
  C7: at start-up \<open>main\<close> starts a task for exactly the rows whose next run is later than
  the start-up time, one task each; a row whose next run has passed gets none, recurring
  or not. The ids are the table's primary key, hence distinct.
\<close>

theorem main_arms_pending_rows_once:
  assumes "distinct (map id' rows)"
  shows "set (tasks (main now rows)) = {r \<in> set rows. dt_less now (next_run r)}
    \<and> distinct (map id' (tasks (main now rows)))
    \<and> (\<forall>r \<in> set rows. count_list (tasks (main now rows)) r
          = (if dt_less now (next_run r) then 1 else 0))"
proof -
  have "distinct rows"
    using assms by (simp add: distinct_map)
  then have "r \<in> set rows \<Longrightarrow> count_list rows r = 1" for r
    by (rule count_list_distinct)
  then show ?thesis
    using assms by (auto simp: main_def count_list_filter distinct_map_filter)
qed

theorem main_arms_pending_rows_once_witness:
  "tasks (main (at 2024 3 1 9 0)
      [memo 1 (ascii ''a'') None (at 2024 3 2 8 0),
       memo 2 (ascii ''b'') (Some (ascii ''daily'')) (at 2024 2 28 8 0),
       memo 3 (ascii ''c'') None (at 2024 3 1 9 0)])
     = [memo 1 (ascii ''a'') None (at 2024 3 2 8 0)]
   \<and> count_list (tasks (main (at 2024 3 1 9 0)
      [memo 1 (ascii ''a'') None (at 2024 3 2 8 0),
       memo 2 (ascii ''b'') (Some (ascii ''daily'')) (at 2024 2 28 8 0),
       memo 3 (ascii ''c'') None (at 2024 3 1 9 0)]))
      (memo 2 (ascii ''b'') (Some (ascii ''daily'')) (at 2024 2 28 8 0)) = 0"
  using main_arms_pending_rows_once [of
      "[memo 1 (ascii ''a'') None (at 2024 3 2 8 0),
        memo 2 (ascii ''b'') (Some (ascii ''daily'')) (at 2024 2 28 8 0),
        memo 3 (ascii ''c'') None (at 2024 3 1 9 0)]" "at 2024 3 1 9 0"]
  by (simp add: main_def memo_def dt_defs)

section \<open>Deleting a reminder\<close>





section \<open>Listing and delivery\<close>

text \<open>
  C9: for every owner and moment \<open>now\<close>, the query of \<open>show_reminders\<close> returns exactly
  the owner's rows with \<open>next_run > now\<close> or a recurrence that is not null (each as often
  as the table holds it), in ascending order of \<open>next_run\<close>.
\<close>

theorem active_query_exact_and_sorted:
  "mset (active_query uid now rows)
     = filter_mset
         (\<lambda>r. user_id r = uid \<and> (dt_less now (next_run r) \<or> repeat_interval r \<noteq> None))
         (mset rows)
   \<and> sorted (map (\<lambda>r. dt_key (next_run r)) (active_query uid now rows))"
  by (simp add: active_query_def)

theorem active_query_exact_and_sorted_witness:
  "mset (active_query 7 (at 2024 3 1 9 0)
      [memo 1 (ascii ''a'') None (at 2024 3 2 8 0),
       memo 2 (ascii ''b'') (Some (ascii ''daily'')) (at 2024 2 28 8 0),
       memo 3 (ascii ''c'') None (at 2024 2 1 8 0),
       (memo 4 (ascii ''d'') None (at 2024 3 2 8 0))\<lparr>user_id := 8\<rparr>])
     = {# memo 1 (ascii ''a'') None (at 2024 3 2 8 0),
          memo 2 (ascii ''b'') (Some (ascii ''daily'')) (at 2024 2 28 8 0) #}
   \<and> sorted (map (\<lambda>r. dt_key (next_run r)) (active_query 7 (at 2024 3 1 9 0)
      [memo 1 (ascii ''a'') None (at 2024 3 2 8 0),
       memo 2 (ascii ''b'') (Some (ascii ''daily'')) (at 2024 2 28 8 0),
       memo 3 (ascii ''c'') None (at 2024 2 1 8 0),
       (memo 4 (ascii ''d'') None (at 2024 3 2 8 0))\<lparr>user_id := 8\<rparr>]))"
  using active_query_exact_and_sorted [of 7 "at 2024 3 1 9 0"
      "[memo 1 (ascii ''a'') None (at 2024 3 2 8 0),
        memo 2 (ascii ''b'') (Some (ascii ''daily'')) (at 2024 2 28 8 0),
        memo 3 (ascii ''c'') None (at 2024 2 1 8 0),
        (memo 4 (ascii ''d'') None (at 2024 3 2 8 0))\<lparr>user_id := 8\<rparr>]"]
  by (simp add: memo_def dt_defs)

text \<open>
  C10: a reminder that is not a weather reminder and has a file id, with a file type
  that is none of photo, document and audio, is delivered as nothing at all: no gateway
  call is made (not even the text), and nothing is raised or printed.
\<close>

theorem send_reminder_unknown_file_type:
  assumes "\<not> is_weather r" and "file_id r = Some f" and "truthy_str f"
    and "file_type r \<noteq> Some (ascii ''photo'')"
    and "file_type r \<noteq> Some (ascii ''document'')"
    and "file_type r \<noteq> Some (ascii ''audio'')"
  shows "send_reminder e r = []"
  using assms by (simp add: send_reminder_def)

theorem send_reminder_unknown_file_type_witness:
  "send_reminder sample_env
     ((memo 1 (ascii ''Clip'') None (at 2024 3 2 8 0))
        \<lparr>file_id := Some (ascii ''AgAD''), file_type := Some (ascii ''video'')\<rparr>) = []"
  using send_reminder_unknown_file_type [of
      "(memo 1 (ascii ''Clip'') None (at 2024 3 2 8 0))
         \<lparr>file_id := Some (ascii ''AgAD''), file_type := Some (ascii ''video'')\<rparr>"
      "ascii ''AgAD''" sample_env]
  by (simp add: memo_def str_defs)

end
